theory Spec2Isabelle
  imports Main "HOL-Library.Sublist"
begin

section \<open>Data model of client\_wrapper.py\<close>

text \<open>
  A \<open>datetime\<close> is modelled by an integer (a number of clock ticks since some epoch);
  only the order of two readings matters in what follows.
\<close>

record TestError =
  timestamp :: int
  message :: string

text \<open>
  The Python values that are stored under the keys of \<open>_result_values\<close>: \<open>None\<close>,
  the text of a page element, a datetime, and the list of errors.
\<close>

datatype pyval =
    PyNone
  | PyStr string
  | PyTime int
  | PyErrors "TestError list"

text \<open>
  \<open>NdtResult.__init__\<close> stores its eight arguments. A timestamp is \<open>None\<close> or a
  datetime; a metric is whatever value was passed (\<open>None\<close> by default).
\<close>

record NdtResult =
  start_time :: "int option"
  end_time :: "int option"
  c2s_start_time :: "int option"
  s2c_start_time :: "int option"
  errors :: "TestError list"
  latency :: pyval
  c2s_throughput :: pyval
  s2c_throughput :: pyval

text \<open>
  The dictionary \<open>self._result_values\<close>. \<open>__init__\<close> creates it with the five keys
  \<open>start_time\<close>, \<open>end_time\<close>, \<open>c2s_start_time\<close>, \<open>s2c_start_time\<close> and \<open>errors\<close>;
  \<open>populate_metric_values\<close> adds the three metric keys; no key is ever deleted. A
  metric field is \<open>None\<close> while its key is absent from the dictionary and
  \<open>Some v\<close> once the key holds the value \<open>v\<close>.
\<close>

record result_dict =
  rv_start_time :: "int option"
  rv_end_time :: "int option"
  rv_c2s_start_time :: "int option"
  rv_s2c_start_time :: "int option"
  rv_errors :: "TestError list"
  rv_latency :: "pyval option"
  rv_c2s_throughput :: "pyval option"
  rv_s2c_throughput :: "pyval option"

text \<open>The exceptions that the code raises, catches or lets through.
  In Selenium \<open>TimeoutException\<close> and \<open>NoSuchElementException\<close> are subclasses of
  \<open>WebDriverException\<close>; each carries its \<open>msg\<close>.\<close>

datatype exn =
    WebDriverException string
  | TimeoutException string
  | NoSuchElementException string
  | IndexError
  | KeyError string
  | TypeError
  | ValueError
  | AttributeError

fun is_WebDriverException :: "exn \<Rightarrow> bool" where
  "is_WebDriverException (WebDriverException m) = True"
| "is_WebDriverException (TimeoutException m) = True"
| "is_WebDriverException (NoSuchElementException m) = True"
| "is_WebDriverException e = False"

fun is_TimeoutException :: "exn \<Rightarrow> bool" where
  "is_TimeoutException (TimeoutException m) = True"
| "is_TimeoutException e = False"

fun msg :: "exn \<Rightarrow> string" where
  "msg (WebDriverException m) = m"
| "msg (TimeoutException m) = m"
| "msg (NoSuchElementException m) = m"
| "msg e = []"

subsection \<open>The world outside the code\<close>

type_synonym element = nat

text \<open>
  The browser, the clock and the builtin \<open>float\<close> are not code of the repository.
  An environment fixes what they answer during one run:
  \<^item> \<open>page_get url\<close>: the exception \<open>driver.get(url)\<close> raises, if any;
  \<^item> \<open>element_by_id i\<close>: the element \<open>find_element_by_id\<close> finds (\<open>None\<close>:
    it raises \<open>NoSuchElementException\<close>);
  \<^item> \<open>elements_by_xpath x\<close>: the list \<open>find_elements_by_xpath\<close> returns;
  \<^item> \<open>visible_within e t\<close>: whether element \<open>e\<close> becomes visible within \<open>t\<close> seconds
    (otherwise \<open>WebDriverWait.until\<close> raises \<open>TimeoutException\<close>);
  \<^item> \<open>element_text e\<close>: the \<open>text\<close> attribute of element \<open>e\<close>;
  \<^item> \<open>now k\<close>: what the \<open>k\<close>-th call of \<open>datetime.now(pytz.utc)\<close> returns;
  \<^item> \<open>float_parses s\<close>: whether \<open>float(s)\<close> accepts the string \<open>s\<close>.

  Starting the browser, a click on an element that was found, and \<open>driver.close()\<close>
  are taken to succeed.
\<close>

record env =
  page_get :: "string \<Rightarrow> exn option"
  element_by_id :: "string \<Rightarrow> element option"
  elements_by_xpath :: "string \<Rightarrow> element list"
  visible_within :: "element \<Rightarrow> nat \<Rightarrow> bool"
  element_text :: "element \<Rightarrow> string"
  now :: "nat \<Rightarrow> int"
  float_parses :: "string \<Rightarrow> bool"

datatype phase = Upload | Download | Results

text \<open>What a run does to the browser and to the dictionary, in the order it does it.\<close>

datatype event =
    Get string
  | Click element
  | Wait phase
  | Assign string
  | Close

text \<open>
  The state a run threads through: the dictionary, the number of clock readings taken
  so far, and the events so far (oldest first).
\<close>

record world =
  result_values :: result_dict
  ticks :: nat
  trace :: "event list"

text \<open>
  A statement of the program either raises (\<open>Inl\<close>) or returns (\<open>Inr\<close>), and leaves a
  world behind in both cases.
\<close>

type_synonym 'a prog = "world \<Rightarrow> (exn + 'a) \<times> world"

definition returns :: "'a \<Rightarrow> 'a prog" where
  "returns a w = (Inr a, w)"

definition raises :: "exn \<Rightarrow> 'a prog" where
  "raises e w = (Inl e, w)"

definition and_then :: "'a prog \<Rightarrow> ('a \<Rightarrow> 'b prog) \<Rightarrow> 'b prog" where
  "and_then m f w = (case m w of (Inl e, w') \<Rightarrow> (Inl e, w') | (Inr a, w') \<Rightarrow> f a w')"

definition log :: "event \<Rightarrow> unit prog" where
  "log ev w = (Inr (), w\<lparr>trace := trace w @ [ev]\<rparr>)"

definition modify_values :: "(result_dict \<Rightarrow> result_dict) \<Rightarrow> unit prog" where
  "modify_values f w = (Inr (), w\<lparr>result_values := f (result_values w)\<rparr>)"

text \<open>\<open>datetime.now(pytz.utc)\<close>\<close>

definition utc_now :: "env \<Rightarrow> int prog" where
  "utc_now E w = (Inr (now E (ticks w)), w\<lparr>ticks := Suc (ticks w)\<rparr>)"

text \<open>\<open>driver.get(url)\<close>\<close>

definition driver_get :: "env \<Rightarrow> string \<Rightarrow> unit prog" where
  "driver_get E url =
     and_then (log (Get url)) (\<lambda>_.
       case page_get E url of None \<Rightarrow> returns () | Some e \<Rightarrow> raises e)"

text \<open>\<open>driver.find_element_by_id(i)\<close>\<close>

definition find_element_by_id :: "env \<Rightarrow> string \<Rightarrow> element prog" where
  "find_element_by_id E i =
     (case element_by_id E i of
        None \<Rightarrow> raises (NoSuchElementException [])
      | Some e \<Rightarrow> returns e)"

text \<open>\<open>driver.find_elements_by_xpath(x)[0]\<close>: indexing an empty list raises.\<close>

definition first_by_xpath :: "env \<Rightarrow> string \<Rightarrow> element prog" where
  "first_by_xpath E x =
     (case elements_by_xpath E x of
        [] \<Rightarrow> raises IndexError
      | e # _ \<Rightarrow> returns e)"

definition click :: "element \<Rightarrow> unit prog" where
  "click e = log (Click e)"

text \<open>\<open>ui.WebDriverWait(driver, timeout=t).until(EC.visibility_of(e))\<close>; the phase
  names the call site.\<close>

definition wait_until_visible :: "env \<Rightarrow> phase \<Rightarrow> element \<Rightarrow> nat \<Rightarrow> unit prog" where
  "wait_until_visible E p e t =
     and_then (log (Wait p)) (\<lambda>_.
       if visible_within E e t then returns () else raises (TimeoutException []))"

text \<open>\<open>driver.close()\<close>\<close>

definition driver_close :: "unit prog" where
  "driver_close = log Close"

section \<open>client\_wrapper.py\<close>

subsection \<open>Browser selection\<close>

datatype webdriver = Firefox | Chrome | Edge | Safari

text \<open>\<open>set_test_browser\<close>: a Python function that falls off its end returns \<open>None\<close>.\<close>

definition set_test_browser :: "string \<Rightarrow> webdriver option" where
  "set_test_browser browser = (if browser = ''firefox'' then Some Firefox else None)"

subsection \<open>The dictionary of result values\<close>

text \<open>\<open>__init__\<close>\<close>

definition init_values :: result_dict where
  "init_values =
     \<lparr>rv_start_time = None, rv_end_time = None, rv_c2s_start_time = None,
      rv_s2c_start_time = None, rv_errors = [],
      rv_latency = None, rv_c2s_throughput = None, rv_s2c_throughput = None\<rparr>"

text \<open>A driver object right after its construction, before anything has run.\<close>

definition new_driver :: world where
  "new_driver = \<lparr>result_values = init_values, ticks = 0, trace = []\<rparr>"

definition time_value :: "int option \<Rightarrow> pyval" where
  "time_value t = (case t of None \<Rightarrow> PyNone | Some x \<Rightarrow> PyTime x)"

text \<open>\<open>self._result_values[key]\<close>: \<open>None\<close> when the dictionary has no such key.\<close>

definition dict_get :: "result_dict \<Rightarrow> string \<Rightarrow> pyval option" where
  "dict_get d key =
     (if key = ''start_time'' then Some (time_value (rv_start_time d))
      else if key = ''end_time'' then Some (time_value (rv_end_time d))
      else if key = ''c2s_start_time'' then Some (time_value (rv_c2s_start_time d))
      else if key = ''s2c_start_time'' then Some (time_value (rv_s2c_start_time d))
      else if key = ''errors'' then Some (PyErrors (rv_errors d))
      else if key = ''latency'' then rv_latency d
      else if key = ''c2s_throughput'' then rv_c2s_throughput d
      else if key = ''s2c_throughput'' then rv_s2c_throughput d
      else None)"

definition lookup :: "string \<Rightarrow> pyval prog" where
  "lookup key w =
     (case dict_get (result_values w) key of
        None \<Rightarrow> (Inl (KeyError key), w)
      | Some v \<Rightarrow> (Inr v, w))"

text \<open>\<open>self._result_values[key] = ...\<close>, as an update of the dictionary.\<close>

definition assign :: "string \<Rightarrow> (result_dict \<Rightarrow> result_dict) \<Rightarrow> unit prog" where
  "assign key f = and_then (log (Assign key)) (\<lambda>_. modify_values f)"

text \<open>\<open>self._result_values['errors'].append(TestError(datetime.now(pytz.utc), message))\<close>\<close>

definition append_error :: "env \<Rightarrow> string \<Rightarrow> unit prog" where
  "append_error E m =
     and_then (utc_now E) (\<lambda>t.
       modify_values (\<lambda>d. d\<lparr>rv_errors := rv_errors d @ [\<lparr>timestamp = t, message = m\<rparr>]\<rparr>))"

text \<open>\<open>NdtResult(**self._result_values)\<close>: a metric whose key is absent takes the
  default \<open>None\<close> of the constructor.\<close>

definition metric_arg :: "pyval option \<Rightarrow> pyval" where
  "metric_arg v = (case v of None \<Rightarrow> PyNone | Some x \<Rightarrow> x)"

definition NdtResult_of :: "result_dict \<Rightarrow> NdtResult" where
  "NdtResult_of d =
     \<lparr>start_time = rv_start_time d, end_time = rv_end_time d,
      c2s_start_time = rv_c2s_start_time d, s2c_start_time = rv_s2c_start_time d,
      errors = rv_errors d, latency = metric_arg (rv_latency d),
      c2s_throughput = metric_arg (rv_c2s_throughput d),
      s2c_throughput = metric_arg (rv_s2c_throughput d)\<rparr>"

definition build_result :: "NdtResult prog" where
  "build_result w = (Inr (NdtResult_of (result_values w)), w)"

subsection \<open>Metric validation\<close>

text \<open>
  \<open>test_indiv_metric_is_valid\<close>. The lookup and \<open>float\<close> are inside the \<open>try\<close>, whose
  only handler is for \<open>ValueError\<close>: \<open>float\<close> raises that for a string it cannot parse;
  for \<open>None\<close>, a datetime or a list it raises \<open>TypeError\<close>, and a missing key raises
  \<open>KeyError\<close>; both pass through the handler.
\<close>

definition illegal_value_message :: "string \<Rightarrow> string \<Rightarrow> string" where
  "illegal_value_message metric text = ''illegal value shown for '' @ metric @ '': '' @ text"

definition test_indiv_metric_is_valid :: "env \<Rightarrow> string \<Rightarrow> unit prog" where
  "test_indiv_metric_is_valid E metric =
     and_then (lookup metric) (\<lambda>v.
       case v of
         PyStr s \<Rightarrow>
           if float_parses E s then returns ()
           else append_error E (illegal_value_message metric s)
       | _ \<Rightarrow> raises TypeError)"

text \<open>\<open>check_result_metrics\<close>\<close>

definition check_result_metrics :: "env \<Rightarrow> unit prog" where
  "check_result_metrics E =
     and_then (test_indiv_metric_is_valid E ''latency'') (\<lambda>_.
     and_then (test_indiv_metric_is_valid E ''s2c_throughput'') (\<lambda>_.
     test_indiv_metric_is_valid E ''c2s_throughput''))"

subsection \<open>Reading the page\<close>

text \<open>\<open>populate_metric_values\<close>\<close>

definition populate_metric_values :: "env \<Rightarrow> unit prog" where
  "populate_metric_values E =
     and_then (find_element_by_id E ''upload-speed'') (\<lambda>up.
     and_then (assign ''c2s_throughput''
                 (\<lambda>d. d\<lparr>rv_c2s_throughput := Some (PyStr (element_text E up))\<rparr>)) (\<lambda>_.
     and_then (find_element_by_id E ''download-speed'') (\<lambda>down.
     and_then (assign ''s2c_throughput''
                 (\<lambda>d. d\<lparr>rv_s2c_throughput := Some (PyStr (element_text E down))\<rparr>)) (\<lambda>_.
     and_then (find_element_by_id E ''latency'') (\<lambda>lat.
     assign ''latency'' (\<lambda>d. d\<lparr>rv_latency := Some (PyStr (element_text E lat))\<rparr>))))))"

definition upload_xpath :: string where
  "upload_xpath = ''//*[contains(text(), '' @ [CHR 0x27] @ ''your upload speed'' @ [CHR 0x27] @ '')]''"

definition download_xpath :: string where
  "download_xpath = ''//*[contains(text(), '' @ [CHR 0x27] @ ''your download speed'' @ [CHR 0x27] @ '')]''"

definition start_xpath :: string where
  "start_xpath = ''//*[contains(text(), '' @ [CHR 0x27] @ ''Start Test'' @ [CHR 0x27] @ '')]''"

text \<open>\<open>record_test_in_progress_values\<close>\<close>

definition record_test_in_progress_values :: "env \<Rightarrow> nat \<Rightarrow> unit prog" where
  "record_test_in_progress_values E timeout_time =
     and_then (first_by_xpath E upload_xpath) (\<lambda>upload_speed_text.
     and_then (wait_until_visible E Upload upload_speed_text timeout_time) (\<lambda>_.
     and_then (utc_now E) (\<lambda>t1.
     and_then (assign ''c2s_start_time'' (\<lambda>d. d\<lparr>rv_c2s_start_time := Some t1\<rparr>)) (\<lambda>_.
     and_then (first_by_xpath E download_xpath) (\<lambda>download_speed_text.
     and_then (wait_until_visible E Download download_speed_text timeout_time) (\<lambda>_.
     and_then (utc_now E) (\<lambda>t2.
     and_then (assign ''s2c_start_time'' (\<lambda>d. d\<lparr>rv_s2c_start_time := Some t2\<rparr>)) (\<lambda>_.
     and_then (find_element_by_id E ''results'') (\<lambda>results_text.
     and_then (wait_until_visible E Results results_text timeout_time) (\<lambda>_.
     and_then (utc_now E) (\<lambda>t3.
     assign ''end_time'' (\<lambda>d. d\<lparr>rv_end_time := Some t3\<rparr>))))))))))))"

subsection \<open>The test run\<close>

definition target_url_message :: string where
  "target_url_message = ''Target URL invalid_url is not well-formed.''"

definition timeout_message :: string where
  "timeout_message = ''Test did not complete within timeout period.''"

text \<open>The body of a handler of \<open>perform_test\<close>: record the error, close the browser,
  return the result built from the dictionary.\<close>

definition fail_with :: "env \<Rightarrow> string \<Rightarrow> NdtResult prog" where
  "fail_with E m =
     and_then (append_error E m) (\<lambda>_.
     and_then driver_close (\<lambda>_.
     build_result))"

text \<open>
  \<open>perform_test\<close> after its first \<open>try\<close> statement: the two clicks, the start time, the
  second \<open>try\<close> statement with its handler for \<open>TimeoutException\<close> only, the validation
  of the metrics, \<open>driver.close()\<close> and the result.
\<close>

definition run_started_test :: "env \<Rightarrow> nat \<Rightarrow> NdtResult prog" where
  "run_started_test E timeout_time =
     and_then (find_element_by_id E ''websocketButton'') (\<lambda>websocket_button.
     and_then (click websocket_button) (\<lambda>_.
     and_then (first_by_xpath E start_xpath) (\<lambda>start_button.
     and_then (click start_button) (\<lambda>_.
     and_then (utc_now E) (\<lambda>t0.
     and_then (assign ''start_time'' (\<lambda>d. d\<lparr>rv_start_time := Some t0\<rparr>)) (\<lambda>_.
     (\<lambda>w. case and_then (record_test_in_progress_values E timeout_time)
                   (\<lambda>_. populate_metric_values E) w of
            (Inl e, w') \<Rightarrow>
              if is_TimeoutException e then fail_with E timeout_message w'
              else (Inl e, w')
          | (Inr u, w') \<Rightarrow>
              and_then (check_result_metrics E) (\<lambda>_.
              and_then driver_close (\<lambda>_.
              build_result)) w')))))))"

text \<open>
  \<open>perform_test\<close>. When \<open>set_test_browser\<close> returned \<open>None\<close>, \<open>driver.get\<close> raises
  \<open>AttributeError\<close>, which the handler for \<open>WebDriverException\<close> does not catch. A
  \<open>WebDriverException\<close> whose message is not the one the handler compares with leaves
  the handler without a \<open>return\<close>, and the function goes on.
\<close>

definition perform_test :: "env \<Rightarrow> string \<Rightarrow> string \<Rightarrow> nat \<Rightarrow> NdtResult prog" where
  "perform_test E url browser timeout_time w =
     (case set_test_browser browser of
        None \<Rightarrow> (Inl AttributeError, w)
      | Some driver \<Rightarrow>
          (case driver_get E url w of
             (Inl e, w') \<Rightarrow>
               if is_WebDriverException e then
                 (if msg e = target_url_message then fail_with E (msg e) w'
                  else run_started_test E timeout_time w')
               else (Inl e, w')
           | (Inr u, w') \<Rightarrow> run_started_test E timeout_time w'))"

section \<open>browser\_client\_common.py\<close>

text \<open>Modelled from the spec: the module \<open>names\<close> with the constants \<open>FIREFOX\<close>,
  \<open>CHROME\<close>, \<open>EDGE\<close> and \<open>SAFARI\<close> is missing; the supported browser identifiers are
  \<open>firefox\<close>, \<open>chrome\<close>, \<open>edge\<close> and \<open>safari\<close>.\<close>

definition FIREFOX :: string where "FIREFOX = ''firefox''"
definition CHROME :: string where "CHROME = ''chrome''"
definition EDGE :: string where "EDGE = ''edge''"
definition SAFARI :: string where "SAFARI = ''safari''"

text \<open>\<open>create_browser\<close>; the \<open>ValueError\<close> carries the identifier.\<close>

datatype browser_error = Invalid_browser string

definition create_browser :: "string \<Rightarrow> browser_error + webdriver" where
  "create_browser browser =
     (if browser = FIREFOX then Inr Firefox
      else if browser = CHROME then Inr Chrome
      else if browser = EDGE then Inr Edge
      else if browser = SAFARI then Inr Safari
      else Inl (Invalid_browser browser))"

text \<open>
  \<open>load_url\<close>. The class \<open>results.TestError\<close> is missing, so its constructor is the
  parameter \<open>mk_error\<close>; the function returns what it returns or raises, and the list
  \<open>errors\<close> as it leaves it.
\<close>

definition failed_to_load_url :: "string \<Rightarrow> string" where
  "failed_to_load_url url = ''Failed to load URL: '' @ url"

definition load_url ::
    "(string \<Rightarrow> 'e) \<Rightarrow> env \<Rightarrow> string \<Rightarrow> 'e list \<Rightarrow> (exn + bool) \<times> 'e list" where
  "load_url mk_error E url errs =
     (case page_get E url of
        None \<Rightarrow> (Inr True, errs)
      | Some e \<Rightarrow>
          if is_WebDriverException e
          then (Inr False, errs @ [mk_error (failed_to_load_url url)])
          else (Inl e, errs))"

section \<open>ndt\_client\_http\_server.py\<close>

text \<open>Modelled from the spec: the module \<open>ndt_client_http_server\<close> (the class
  \<open>NdtClientHTTPServer\<close> with \<open>async_start\<close>, \<open>port\<close> and \<open>stop\<close>) is missing; only its
  tests are there. \<open>async_start\<close> binds a server socket to a port the system assigns; when
  the bind fails the failure goes to the caller at once, and \<open>port\<close> is valid only after
  \<open>async_start\<close> has returned. The first argument is what the constructor of the
  underlying HTTP server does: it raises, or it gives a socket with its name (host and
  port).\<close>

datatype bind_error = BindError string

record NdtClientHTTPServer =
  client_path :: string
  port :: "nat option"
  serving :: bool

definition new_server :: "string \<Rightarrow> NdtClientHTTPServer" where
  "new_server path = \<lparr>client_path = path, port = None, serving = False\<rparr>"

definition async_start ::
    "(bind_error + string \<times> nat) \<Rightarrow> NdtClientHTTPServer
       \<Rightarrow> (bind_error + unit) \<times> NdtClientHTTPServer" where
  "async_start bound s =
     (case bound of
        Inl e \<Rightarrow> (Inl e, s)
      | Inr sockname \<Rightarrow> (Inr (), s\<lparr>port := Some (snd sockname), serving := True\<rparr>))"

section \<open>Notions used by the properties\<close>

text \<open>The errors recorded so far.\<close>

definition errors_of :: "world \<Rightarrow> TestError list" where
  "errors_of w = rv_errors (result_values w)"

text \<open>A statement only appends to the list of errors: what was recorded before it is a
  prefix of what is recorded after it, however it ends.\<close>

definition appends_only :: "'a prog \<Rightarrow> bool" where
  "appends_only m = (\<forall>w. prefix (errors_of w) (errors_of (snd (m w))))"

text \<open>\<open>driver.get\<close> lets \<open>perform_test\<close> go on to the test: it returns, or it raises a
  \<open>WebDriverException\<close> with another message than the one the handler returns for.\<close>

definition page_opens :: "exn option \<Rightarrow> bool" where
  "page_opens g =
     (case g of
        None \<Rightarrow> True
      | Some e \<Rightarrow> is_WebDriverException e \<and> msg e \<noteq> target_url_message)"

text \<open>The wait of \<open>record_test_in_progress_values\<close> that raises \<open>TimeoutException\<close>, if
  one does: the first one whose element was found and does not become visible in
  time, all elements before it having been found and seen.\<close>

definition timed_out_phase :: "env \<Rightarrow> nat \<Rightarrow> phase option" where
  "timed_out_phase E t =
     (case elements_by_xpath E upload_xpath of
        [] \<Rightarrow> None
      | up # _ \<Rightarrow>
          if \<not> visible_within E up t then Some Upload
          else (case elements_by_xpath E download_xpath of
                  [] \<Rightarrow> None
                | down # _ \<Rightarrow>
                    if \<not> visible_within E down t then Some Download
                    else (case element_by_id E ''results'' of
                            None \<Rightarrow> None
                          | Some res \<Rightarrow>
                              if \<not> visible_within E res t then Some Results else None)))"

text \<open>The messages of the errors that validation records for a list of metrics with
  their texts: one for each text that \<open>float\<close> does not accept, in the order of the
  list.\<close>

definition illegal_values :: "env \<Rightarrow> (string \<times> string) list \<Rightarrow> string list" where
  "illegal_values E ms =
     map (\<lambda>(metric, text). illegal_value_message metric text)
       (filter (\<lambda>(metric, text). \<not> float_parses E text) ms)"

text \<open>The events of a complete run of \<open>record_test_in_progress_values\<close>.\<close>

definition in_progress_events :: "event list" where
  "in_progress_events =
     [Wait Upload, Assign ''c2s_start_time'', Wait Download, Assign ''s2c_start_time'',
      Wait Results, Assign ''end_time'']"

text \<open>In the list \<open>xs\<close> no \<open>b\<close> comes before the first \<open>a\<close>: wherever \<open>b\<close> occurs, \<open>a\<close> has
  occurred before.\<close>

fun preceded_by :: "'a \<Rightarrow> 'a \<Rightarrow> 'a list \<Rightarrow> bool" where
  "preceded_by a b [] = True"
| "preceded_by a b (x # xs) =
     (if x = a then True else if x = b then False else preceded_by a b xs)"

subsection \<open>Concrete pages\<close>

text \<open>A stand-in for \<open>float\<close> in the concrete runs: it accepts the non-empty strings
  of decimal digits (which \<open>float\<close> accepts) and nothing else.\<close>

definition decimal_text :: "string \<Rightarrow> bool" where
  "decimal_text s = (s \<noteq> [] \<and> list_all (\<lambda>c. c \<in> set ''0123456789'') s)"

text \<open>A page on which the test runs to its end: every element is there, becomes visible
  in time, and the three metrics are numbers. The clock advances by one per reading.\<close>

definition good_page :: env where
  "good_page =
     \<lparr>page_get = (\<lambda>url. None),
      element_by_id =
        (\<lambda>i. if i = ''websocketButton'' then Some 1
             else if i = ''results'' then Some 5
             else if i = ''upload-speed'' then Some 6
             else if i = ''download-speed'' then Some 7
             else if i = ''latency'' then Some 8
             else None),
      elements_by_xpath =
        (\<lambda>x. if x = start_xpath then [2]
             else if x = upload_xpath then [3]
             else if x = download_xpath then [4]
             else []),
      visible_within = (\<lambda>e t. True),
      element_text = (\<lambda>e. if e = 6 then ''941'' else if e = 7 then ''872'' else ''23''),
      now = (\<lambda>k. 100 + int k),
      float_parses = decimal_text\<rparr>"

text \<open>The same page, on which the text about the download never becomes visible.\<close>

definition stalled_download :: env where
  "stalled_download = good_page\<lparr>visible_within := (\<lambda>e t. e \<noteq> 4)\<rparr>"

text \<open>The same page, showing a latency that is not a number.\<close>

definition garbled_latency :: env where
  "garbled_latency =
     good_page\<lparr>element_text := (\<lambda>e. if e = 6 then ''941'' else if e = 7 then ''872'' else ''n/a'')\<rparr>"

text \<open>A browser that refuses every URL as malformed, with the message Firefox gives, and
  so shows no page: no element is found.\<close>

definition nothing_loads :: env where
  "nothing_loads =
     good_page
       \<lparr>page_get := (\<lambda>url. Some (WebDriverException (''Target URL '' @ url @ '' is not well-formed.''))),
        element_by_id := (\<lambda>i. None),
        elements_by_xpath := (\<lambda>x. [])\<rparr>"

text \<open>The good page, when \<open>driver.get\<close> gives up waiting for it: the elements are there
  all the same.\<close>

definition slow_page :: env where
  "slow_page =
     good_page\<lparr>page_get := (\<lambda>url. Some (TimeoutException ''Timed out waiting for page load.''))\<rparr>"

section \<open>Properties\<close>

lemmas prog_defs = returns_def raises_def and_then_def log_def modify_values_def utc_now_def
  driver_get_def find_element_by_id_def first_by_xpath_def click_def wait_until_visible_def
  driver_close_def lookup_def assign_def append_error_def build_result_def

lemmas run_defs = perform_test_def run_started_test_def record_test_in_progress_values_def
  populate_metric_values_def check_result_metrics_def test_indiv_metric_is_valid_def
  fail_with_def set_test_browser_def dict_get_def NdtResult_of_def metric_arg_def
  new_driver_def init_values_def

lemmas page_defs = good_page_def stalled_download_def garbled_latency_def nothing_loads_def
  slow_page_def decimal_text_def upload_xpath_def download_xpath_def start_xpath_def
  target_url_message_def timeout_message_def

subsection \<open>A run that succeeds\<close>

text \<open>
  Claim C1. Take a run of \<open>perform_test\<close> on a new driver with the browser \<open>firefox\<close>, in
  which the URL loads, the two buttons and the elements of the three phases are found,
  every wait ends within the timeout, and \<open>float\<close> accepts the three texts read from the
  page. The clock's readings do not decrease. Then \<open>perform_test\<close> returns a result with
  \<open>start_time \<le> c2s_start_time \<le> s2c_start_time \<le> end_time\<close>, all four set, with no
  error, and with three metrics that \<open>float\<close> accepts.
\<close>

theorem successful_run:
  assumes load: "page_get E url = None"
    and buttons: "element_by_id E ''websocketButton'' = Some wb"
      "elements_by_xpath E start_xpath = sb # sbs"
    and upload: "elements_by_xpath E upload_xpath = up # ups" "visible_within E up t"
    and download: "elements_by_xpath E download_xpath = down # downs" "visible_within E down t"
    and results: "element_by_id E ''results'' = Some res" "visible_within E res t"
    and c2s: "element_by_id E ''upload-speed'' = Some a" "float_parses E (element_text E a)"
    and s2c: "element_by_id E ''download-speed'' = Some b" "float_parses E (element_text E b)"
    and lat: "element_by_id E ''latency'' = Some c" "float_parses E (element_text E c)"
    and clock: "mono (now E)"
  shows "\<exists>r w.
           perform_test E url ''firefox'' t new_driver = (Inr r, w) \<and>
           start_time r = Some (now E 0) \<and> c2s_start_time r = Some (now E 1) \<and>
           s2c_start_time r = Some (now E 2) \<and> end_time r = Some (now E 3) \<and>
           now E 0 \<le> now E 1 \<and> now E 1 \<le> now E 2 \<and> now E 2 \<le> now E 3 \<and>
           errors r = [] \<and>
           latency r = PyStr (element_text E c) \<and> float_parses E (element_text E c) \<and>
           c2s_throughput r = PyStr (element_text E a) \<and> float_parses E (element_text E a) \<and>
           s2c_throughput r = PyStr (element_text E b) \<and> float_parses E (element_text E b)"
proof -
  have order: "now E 0 \<le> now E 1" "now E 1 \<le> now E 2" "now E 2 \<le> now E 3"
    using clock by (simp_all add: mono_def)
  have run: "perform_test E url ''firefox'' t new_driver =
     (Inr \<lparr>start_time = Some (now E 0), end_time = Some (now E 3),
           c2s_start_time = Some (now E 1), s2c_start_time = Some (now E 2),
           errors = [], latency = PyStr (element_text E c),
           c2s_throughput = PyStr (element_text E a),
           s2c_throughput = PyStr (element_text E b)\<rparr>,
      snd (perform_test E url ''firefox'' t new_driver))"
    using assms
    by (simp add: run_defs prog_defs numeral_2_eq_2 numeral_3_eq_3)
  show ?thesis
    using order c2s s2c lat by (subst run) simp
qed

theorem successful_run_witness:
  "page_get good_page ''http://ndt.example:7123/'' = None \<and>
   element_by_id good_page ''websocketButton'' = Some 1 \<and>
   elements_by_xpath good_page start_xpath = [2] \<and>
   elements_by_xpath good_page upload_xpath = [3] \<and> visible_within good_page 3 20 \<and>
   elements_by_xpath good_page download_xpath = [4] \<and> visible_within good_page 4 20 \<and>
   element_by_id good_page ''results'' = Some 5 \<and> visible_within good_page 5 20 \<and>
   element_by_id good_page ''upload-speed'' = Some 6 \<and>
   float_parses good_page (element_text good_page 6) \<and>
   element_by_id good_page ''download-speed'' = Some 7 \<and>
   float_parses good_page (element_text good_page 7) \<and>
   element_by_id good_page ''latency'' = Some 8 \<and>
   float_parses good_page (element_text good_page 8) \<and>
   mono (now good_page) \<and>
   (\<exists>r w. perform_test good_page ''http://ndt.example:7123/'' ''firefox'' 20 new_driver = (Inr r, w) \<and>
      start_time r = Some 100 \<and> c2s_start_time r = Some 101 \<and>
      s2c_start_time r = Some 102 \<and> end_time r = Some 103 \<and> errors r = [] \<and>
      latency r = PyStr ''23'' \<and> c2s_throughput r = PyStr ''941'' \<and>
      s2c_throughput r = PyStr ''872'')"
proof -
  have load: "page_get good_page ''http://ndt.example:7123/'' = None"
    and buttons: "element_by_id good_page ''websocketButton'' = Some 1"
      "elements_by_xpath good_page start_xpath = [2]"
    and upload: "elements_by_xpath good_page upload_xpath = [3]" "visible_within good_page 3 20"
    and download: "elements_by_xpath good_page download_xpath = [4]" "visible_within good_page 4 20"
    and results: "element_by_id good_page ''results'' = Some 5" "visible_within good_page 5 20"
    and c2s: "element_by_id good_page ''upload-speed'' = Some 6"
      "float_parses good_page (element_text good_page 6)"
    and s2c: "element_by_id good_page ''download-speed'' = Some 7"
      "float_parses good_page (element_text good_page 7)"
    and lat: "element_by_id good_page ''latency'' = Some 8"
      "float_parses good_page (element_text good_page 8)"
    by (simp_all add: page_defs)
  have clock: "mono (now good_page)"
    by (simp add: mono_def good_page_def)
  have texts: "element_text good_page 6 = ''941''" "element_text good_page 7 = ''872''"
    "element_text good_page 8 = ''23''" "now good_page 0 = 100" "now good_page 1 = 101"
    "now good_page 2 = 102" "now good_page 3 = 103"
    by (simp_all add: good_page_def)
  from successful_run [OF load buttons upload download results c2s s2c lat clock]
  have "\<exists>r w. perform_test good_page ''http://ndt.example:7123/'' ''firefox'' 20 new_driver = (Inr r, w) \<and>
      start_time r = Some 100 \<and> c2s_start_time r = Some 101 \<and>
      s2c_start_time r = Some 102 \<and> end_time r = Some 103 \<and> errors r = [] \<and>
      latency r = PyStr ''23'' \<and> c2s_throughput r = PyStr ''941'' \<and>
      s2c_throughput r = PyStr ''872''"
    unfolding texts by blast
  with load buttons upload download results c2s s2c lat clock show ?thesis
    by simp
qed

subsection \<open>A wait that runs out of time\<close>

lemma timed_out_UploadD:
  assumes "timed_out_phase E t = Some Upload"
  shows "\<exists>up ups. elements_by_xpath E upload_xpath = up # ups \<and> \<not> visible_within E up t"
  using assms by (auto simp: timed_out_phase_def split: list.splits if_splits option.splits)

lemma timed_out_DownloadD:
  assumes "timed_out_phase E t = Some Download"
  shows "\<exists>up ups down downs.
           elements_by_xpath E upload_xpath = up # ups \<and> visible_within E up t \<and>
           elements_by_xpath E download_xpath = down # downs \<and> \<not> visible_within E down t"
  using assms by (auto simp: timed_out_phase_def split: list.splits if_splits option.splits)

lemma timed_out_ResultsD:
  assumes "timed_out_phase E t = Some Results"
  shows "\<exists>up ups down downs res.
           elements_by_xpath E upload_xpath = up # ups \<and> visible_within E up t \<and>
           elements_by_xpath E download_xpath = down # downs \<and> visible_within E down t \<and>
           element_by_id E ''results'' = Some res \<and> \<not> visible_within E res t"
  using assms by (auto simp: timed_out_phase_def split: list.splits if_splits option.splits)

lemma perform_test_opens:
  assumes "page_opens (page_get E url)"
  shows "perform_test E url ''firefox'' t w =
           run_started_test E t (w\<lparr>trace := trace w @ [Get url]\<rparr>)"
  using assms
  by (auto simp: perform_test_def page_opens_def set_test_browser_def prog_defs
        split: option.splits)

text \<open>
  Claim C2. Take a run of \<open>perform_test\<close> on a new driver that reaches the waits (the page
  opens and the two buttons are found) and in which the wait of phase \<open>p\<close> exceeds its
  timeout. Then \<open>perform_test\<close> does not raise: it returns the result built from the
  dictionary, whose errors are exactly one entry with the timeout message; closing the
  browser is the last thing it did, and it did it once. The result holds the timestamps
  recorded before the timeout and no other: when the download phase timed out,
  \<open>c2s_start_time\<close> is set, and \<open>s2c_start_time\<close> and \<open>end_time\<close> are \<open>None\<close>.
\<close>

theorem timeout_is_recorded:
  assumes opens: "page_opens (page_get E url)"
    and buttons: "element_by_id E ''websocketButton'' = Some wb"
      "elements_by_xpath E start_xpath = sb # sbs"
    and out: "timed_out_phase E t = Some p"
  shows "\<exists>r w ts tr.
           perform_test E url ''firefox'' t new_driver = (Inr r, w) \<and>
           errors r = [\<lparr>timestamp = ts, message = timeout_message\<rparr>] \<and>
           trace w = tr @ [Close] \<and> Close \<notin> set tr \<and>
           r = NdtResult_of (result_values w) \<and>
           start_time r = Some (now E 0) \<and>
           c2s_start_time r = (if p = Upload then None else Some (now E 1)) \<and>
           s2c_start_time r = (if p = Results then Some (now E 2) else None) \<and>
           end_time r = None \<and>
           latency r = PyNone \<and> c2s_throughput r = PyNone \<and> s2c_throughput r = PyNone"
proof -
  note run = perform_test_opens [OF opens, of t new_driver]
  note defs = run_started_test_def record_test_in_progress_values_def fail_with_def
    prog_defs NdtResult_of_def new_driver_def init_values_def metric_arg_def
  show ?thesis
  proof (cases p)
    case Upload
    with out obtain up ups where
      "elements_by_xpath E upload_xpath = up # ups" "\<not> visible_within E up t"
      using timed_out_UploadD by blast
    with buttons Upload show ?thesis
      unfolding run by (simp add: defs)
  next
    case Download
    with out obtain up ups down downs where
      "elements_by_xpath E upload_xpath = up # ups" "visible_within E up t"
      "elements_by_xpath E download_xpath = down # downs" "\<not> visible_within E down t"
      using timed_out_DownloadD by blast
    with buttons Download show ?thesis
      unfolding run by (simp add: defs)
  next
    case Results
    with out obtain up ups down downs res where
      "elements_by_xpath E upload_xpath = up # ups" "visible_within E up t"
      "elements_by_xpath E download_xpath = down # downs" "visible_within E down t"
      "element_by_id E ''results'' = Some res" "\<not> visible_within E res t"
      using timed_out_ResultsD by blast
    with buttons Results show ?thesis
      unfolding run by (simp add: defs numeral_2_eq_2)
  qed
qed

theorem timeout_is_recorded_witness:
  "page_opens (page_get stalled_download ''http://ndt.example:7123/'') \<and>
   element_by_id stalled_download ''websocketButton'' = Some 1 \<and>
   elements_by_xpath stalled_download start_xpath = [2] \<and>
   timed_out_phase stalled_download 20 = Some Download \<and>
   (\<exists>r w ts tr.
      perform_test stalled_download ''http://ndt.example:7123/'' ''firefox'' 20 new_driver
        = (Inr r, w) \<and>
      errors r = [\<lparr>timestamp = ts, message = timeout_message\<rparr>] \<and>
      trace w = tr @ [Close] \<and> Close \<notin> set tr \<and>
      start_time r = Some 100 \<and> c2s_start_time r = Some 101 \<and>
      s2c_start_time r = None \<and> end_time r = None)"
proof -
  have opens: "page_opens (page_get stalled_download ''http://ndt.example:7123/'')"
    and buttons: "element_by_id stalled_download ''websocketButton'' = Some 1"
      "elements_by_xpath stalled_download start_xpath = [2]"
    and out: "timed_out_phase stalled_download 20 = Some Download"
    by (simp_all add: page_defs page_opens_def timed_out_phase_def)
  have clock: "now stalled_download 0 = 100" "now stalled_download 1 = 101"
    by (simp_all add: page_defs)
  from timeout_is_recorded [OF opens buttons out]
  have "\<exists>r w ts tr.
      perform_test stalled_download ''http://ndt.example:7123/'' ''firefox'' 20 new_driver
        = (Inr r, w) \<and>
      errors r = [\<lparr>timestamp = ts, message = timeout_message\<rparr>] \<and>
      trace w = tr @ [Close] \<and> Close \<notin> set tr \<and>
      start_time r = Some 100 \<and> c2s_start_time r = Some 101 \<and>
      s2c_start_time r = None \<and> end_time r = None"
    unfolding clock by (simp del: ex_simps) blast
  with opens buttons out show ?thesis
    by simp
qed

subsection \<open>Validation of the metrics\<close>

text \<open>
  Claim C3. When the dictionary holds a text for each of \<open>latency\<close>, \<open>s2c_throughput\<close>
  and \<open>c2s_throughput\<close>, \<open>check_result_metrics\<close> returns, having validated all three:
  for each text that \<open>float\<close> does not accept, in this order, it has appended one error
  whose message names the metric and quotes the text, and it has changed nothing else in
  the dictionary (the errors recorded before are still there, in front). What
  \<open>perform_test\<close> does next, closing the browser and building the result, returns the
  result built from that dictionary: all timestamps, metrics and errors.
\<close>

theorem bad_metrics_are_recorded:
  assumes "rv_latency (result_values w) = Some (PyStr l)"
    and "rv_s2c_throughput (result_values w) = Some (PyStr s)"
    and "rv_c2s_throughput (result_values w) = Some (PyStr c)"
  shows "\<exists>w' w''.
           check_result_metrics E w = (Inr (), w') \<and>
           map message (rv_errors (result_values w')) =
             map message (rv_errors (result_values w)) @
             illegal_values E
               [(''latency'', l), (''s2c_throughput'', s), (''c2s_throughput'', c)] \<and>
           prefix (rv_errors (result_values w)) (rv_errors (result_values w')) \<and>
           result_values w' = (result_values w)\<lparr>rv_errors := rv_errors (result_values w')\<rparr> \<and>
           and_then (check_result_metrics E)
               (\<lambda>_. and_then driver_close (\<lambda>_. build_result)) w =
             (Inr (NdtResult_of (result_values w')), w'')"
  using assms
  by (simp add: check_result_metrics_def test_indiv_metric_is_valid_def prog_defs dict_get_def
        illegal_values_def)

theorem bad_metrics_are_recorded_witness:
  "(let w = new_driver\<lparr>result_values := init_values
              \<lparr>rv_latency := Some (PyStr ''n/a''),
               rv_s2c_throughput := Some (PyStr ''872''),
               rv_c2s_throughput := Some (PyStr ''941'')\<rparr>\<rparr>
    in rv_latency (result_values w) = Some (PyStr ''n/a'') \<and>
       rv_s2c_throughput (result_values w) = Some (PyStr ''872'') \<and>
       rv_c2s_throughput (result_values w) = Some (PyStr ''941'') \<and>
       (\<exists>w'. check_result_metrics good_page w = (Inr (), w') \<and>
          map message (rv_errors (result_values w')) = [''illegal value shown for latency: n/a''] \<and>
          rv_latency (result_values w') = Some (PyStr ''n/a'') \<and>
          rv_s2c_throughput (result_values w') = Some (PyStr ''872'') \<and>
          rv_c2s_throughput (result_values w') = Some (PyStr ''941'')))"
proof -
  define w where "w = new_driver\<lparr>result_values := init_values
              \<lparr>rv_latency := Some (PyStr ''n/a''),
               rv_s2c_throughput := Some (PyStr ''872''),
               rv_c2s_throughput := Some (PyStr ''941'')\<rparr>\<rparr>"
  have l: "rv_latency (result_values w) = Some (PyStr ''n/a'')"
    and s: "rv_s2c_throughput (result_values w) = Some (PyStr ''872'')"
    and c: "rv_c2s_throughput (result_values w) = Some (PyStr ''941'')"
    and e: "rv_errors (result_values w) = []"
    by (simp_all add: w_def new_driver_def init_values_def)
  have msgs: "illegal_values good_page
      [(''latency'', ''n/a''), (''s2c_throughput'', ''872''), (''c2s_throughput'', ''941'')]
      = [''illegal value shown for latency: n/a'']"
    by (simp add: illegal_values_def illegal_value_message_def page_defs)
  from bad_metrics_are_recorded [OF l s c, of good_page]
  obtain w' where run: "check_result_metrics good_page w = (Inr (), w')"
    and m: "map message (rv_errors (result_values w')) = [''illegal value shown for latency: n/a'']"
    and same: "result_values w' = (result_values w)\<lparr>rv_errors := rv_errors (result_values w')\<rparr>"
    unfolding msgs e by auto
  have "rv_latency (result_values w') = rv_latency (result_values w)"
    "rv_s2c_throughput (result_values w') = rv_s2c_throughput (result_values w)"
    "rv_c2s_throughput (result_values w') = rv_c2s_throughput (result_values w)"
    by (subst same, simp)+
  with l s c have "rv_latency (result_values w') = Some (PyStr ''n/a'')"
    "rv_s2c_throughput (result_values w') = Some (PyStr ''872'')"
    "rv_c2s_throughput (result_values w') = Some (PyStr ''941'')"
    by simp_all
  with run m l s c show ?thesis
    unfolding Let_def w_def [symmetric] by simp
qed

subsection \<open>The order of the phases\<close>

text \<open>
  Claim C6. In every run of \<open>record_test_in_progress_values\<close>, however it ends, the events
  it adds are a beginning of: wait for the upload text, assign \<open>c2s_start_time\<close>, wait for
  the download text, assign \<open>s2c_start_time\<close>, wait for the results, assign \<open>end_time\<close>.
  So the wait for the download text comes after the assignment of \<open>c2s_start_time\<close>
  (which the dictionary then holds) and after the wait for the upload text; the wait for
  the results comes after the assignment of \<open>s2c_start_time\<close>; and no key is assigned
  twice. When the run returns, all six events have happened, each once, and the three
  timestamps are set; when the clock's readings do not decrease they satisfy
  \<open>c2s_start_time \<le> s2c_start_time \<le> end_time\<close>.
\<close>

theorem phases_in_order:
  "\<exists>tr w'. snd (record_test_in_progress_values E t w) = w' \<and>
      trace w' = trace w @ tr \<and> prefix tr in_progress_events \<and>
      preceded_by (Wait Upload) (Assign ''c2s_start_time'') tr \<and>
      preceded_by (Assign ''c2s_start_time'') (Wait Download) tr \<and>
      preceded_by (Wait Download) (Assign ''s2c_start_time'') tr \<and>
      preceded_by (Assign ''s2c_start_time'') (Wait Results) tr \<and>
      preceded_by (Wait Results) (Assign ''end_time'') tr \<and>
      distinct tr \<and>
      (Wait Download \<in> set tr \<longrightarrow>
         rv_c2s_start_time (result_values w') = Some (now E (ticks w))) \<and>
      (Wait Results \<in> set tr \<longrightarrow>
         rv_s2c_start_time (result_values w') = Some (now E (ticks w + 1))) \<and>
      (fst (record_test_in_progress_values E t w) = Inr () \<longrightarrow>
         tr = in_progress_events \<and>
         (\<exists>t1 t2 t3.
            rv_c2s_start_time (result_values w') = Some t1 \<and>
            rv_s2c_start_time (result_values w') = Some t2 \<and>
            rv_end_time (result_values w') = Some t3 \<and>
            (mono (now E) \<longrightarrow> t1 \<le> t2 \<and> t2 \<le> t3)))"
  by (simp add: record_test_in_progress_values_def prog_defs in_progress_events_def mono_def
        split: list.splits option.splits)

theorem phases_in_order_witness:
  "fst (record_test_in_progress_values good_page 20 new_driver) = Inr () \<and>
   mono (now good_page) \<and>
   trace (snd (record_test_in_progress_values good_page 20 new_driver)) = in_progress_events \<and>
   Wait Download \<in> set in_progress_events \<and> Wait Results \<in> set in_progress_events \<and>
   rv_c2s_start_time (result_values (snd (record_test_in_progress_values good_page 20 new_driver)))
     = Some 100 \<and>
   rv_s2c_start_time (result_values (snd (record_test_in_progress_values good_page 20 new_driver)))
     = Some 101 \<and>
   (\<exists>t1 t2 t3.
      rv_c2s_start_time (result_values (snd (record_test_in_progress_values good_page 20 new_driver)))
        = Some t1 \<and>
      rv_s2c_start_time (result_values (snd (record_test_in_progress_values good_page 20 new_driver)))
        = Some t2 \<and>
      rv_end_time (result_values (snd (record_test_in_progress_values good_page 20 new_driver)))
        = Some t3 \<and>
      t1 \<le> t2 \<and> t2 \<le> t3)"
proof -
  let ?run = "record_test_in_progress_values good_page 20 new_driver"
  have returned: "fst ?run = Inr ()"
    by (simp add: record_test_in_progress_values_def prog_defs page_defs new_driver_def)
  have clock: "mono (now good_page)"
    by (simp add: mono_def good_page_def)
  have start: "trace new_driver = []" "ticks new_driver = 0" "now good_page 0 = 100"
    "now good_page (0 + 1) = 101"
    by (simp_all add: new_driver_def good_page_def)
  have members: "Wait Download \<in> set in_progress_events" "Wait Results \<in> set in_progress_events"
    by (simp_all add: in_progress_events_def)
  from phases_in_order [of good_page 20 new_driver] returned clock members
  have "trace (snd ?run) = in_progress_events \<and>
     rv_c2s_start_time (result_values (snd ?run)) = Some 100 \<and>
     rv_s2c_start_time (result_values (snd ?run)) = Some 101 \<and>
     (\<exists>t1 t2 t3.
        rv_c2s_start_time (result_values (snd ?run)) = Some t1 \<and>
        rv_s2c_start_time (result_values (snd ?run)) = Some t2 \<and>
        rv_end_time (result_values (snd ?run)) = Some t3 \<and>
        t1 \<le> t2 \<and> t2 \<le> t3)"
    unfolding start by auto
  with returned clock members show ?thesis by blast
qed

subsection \<open>The list of errors only grows\<close>

lemma appends_only_returns: "appends_only (returns a)"
  by (simp add: appends_only_def returns_def)

lemma appends_only_raises: "appends_only (raises e)"
  by (simp add: appends_only_def raises_def)

lemma appends_only_and_then:
  assumes "appends_only m" and "\<And>a. appends_only (f a)"
  shows "appends_only (and_then m f)"
proof -
  have "prefix (errors_of w) (errors_of (snd (and_then m f w)))" for w
  proof (cases "m w")
    case (Pair r w')
    have step: "prefix (errors_of w) (errors_of w')"
      using assms(1) Pair by (auto simp: appends_only_def dest: spec [of _ w])
    show ?thesis
    proof (cases r)
      case (Inl e)
      with Pair step show ?thesis by (simp add: and_then_def)
    next
      case (Inr a)
      have "prefix (errors_of w') (errors_of (snd (f a w')))"
        using assms(2) [of a] by (simp add: appends_only_def)
      with Pair Inr step show ?thesis
        by (auto simp: and_then_def intro: prefix_order.trans)
    qed
  qed
  then show ?thesis by (simp add: appends_only_def)
qed

lemma appends_only_log: "appends_only (log ev)"
  by (simp add: appends_only_def log_def errors_of_def)

lemma appends_only_utc_now: "appends_only (utc_now E)"
  by (simp add: appends_only_def utc_now_def errors_of_def)

lemma appends_only_modify:
  assumes "\<And>d. prefix (rv_errors d) (rv_errors (f d))"
  shows "appends_only (modify_values f)"
  using assms by (simp add: appends_only_def modify_values_def errors_of_def)

lemma appends_only_assign:
  assumes "\<And>d. prefix (rv_errors d) (rv_errors (f d))"
  shows "appends_only (assign key f)"
  unfolding assign_def
  by (intro appends_only_and_then appends_only_log appends_only_modify assms)

lemma appends_only_append_error: "appends_only (append_error E m)"
  unfolding append_error_def
  by (intro appends_only_and_then appends_only_utc_now appends_only_modify) simp

lemma appends_only_lookup: "appends_only (lookup key)"
  by (simp add: appends_only_def lookup_def errors_of_def split: option.splits)

lemma appends_only_build_result: "appends_only build_result"
  by (simp add: appends_only_def build_result_def)

lemma appends_only_find_element_by_id: "appends_only (find_element_by_id E i)"
  by (simp add: find_element_by_id_def appends_only_returns appends_only_raises split: option.splits)

lemma appends_only_first_by_xpath: "appends_only (first_by_xpath E x)"
  by (simp add: first_by_xpath_def appends_only_returns appends_only_raises split: list.splits)

lemma appends_only_wait: "appends_only (wait_until_visible E p e t)"
  unfolding wait_until_visible_def
  by (intro appends_only_and_then appends_only_log)
     (simp add: appends_only_returns appends_only_raises)

lemma appends_only_driver_get: "appends_only (driver_get E url)"
  unfolding driver_get_def
  by (intro appends_only_and_then appends_only_log)
     (simp add: appends_only_returns appends_only_raises split: option.splits)

lemma appends_only_test_indiv: "appends_only (test_indiv_metric_is_valid E metric)"
  unfolding test_indiv_metric_is_valid_def
  by (intro appends_only_and_then appends_only_lookup)
     (simp add: appends_only_returns appends_only_raises appends_only_append_error
        split: pyval.splits)

lemma appends_only_check: "appends_only (check_result_metrics E)"
  unfolding check_result_metrics_def
  by (intro appends_only_and_then appends_only_test_indiv)

lemma appends_only_populate: "appends_only (populate_metric_values E)"
  unfolding populate_metric_values_def
  by (intro appends_only_and_then appends_only_find_element_by_id appends_only_assign) simp_all

lemma appends_only_record: "appends_only (record_test_in_progress_values E t)"
  unfolding record_test_in_progress_values_def
  by (intro appends_only_and_then appends_only_find_element_by_id appends_only_assign
        appends_only_first_by_xpath appends_only_wait appends_only_utc_now) simp_all

lemma appends_only_fail_with: "appends_only (fail_with E m)"
  unfolding fail_with_def driver_close_def
  by (intro appends_only_and_then appends_only_append_error appends_only_log
        appends_only_build_result)

lemma appends_only_handle:
  assumes "appends_only m" and "\<And>e. appends_only (h e)" and "\<And>a. appends_only (k a)"
  shows "appends_only (\<lambda>w. case m w of (Inl e, w') \<Rightarrow> h e w' | (Inr a, w') \<Rightarrow> k a w')"
proof -
  have "prefix (errors_of w)
          (errors_of (snd (case m w of (Inl e, w') \<Rightarrow> h e w' | (Inr a, w') \<Rightarrow> k a w')))" for w
  proof (cases "m w")
    case (Pair r w')
    have step: "prefix (errors_of w) (errors_of w')"
      using assms(1) Pair by (auto simp: appends_only_def dest: spec [of _ w])
    show ?thesis
    proof (cases r)
      case (Inl e)
      have "prefix (errors_of w') (errors_of (snd (h e w')))"
        using assms(2) [of e] by (simp add: appends_only_def)
      with Pair Inl step show ?thesis by (auto intro: prefix_order.trans)
    next
      case (Inr a)
      have "prefix (errors_of w') (errors_of (snd (k a w')))"
        using assms(3) [of a] by (simp add: appends_only_def)
      with Pair Inr step show ?thesis by (auto intro: prefix_order.trans)
    qed
  qed
  then show ?thesis by (simp add: appends_only_def)
qed

lemma appends_only_run_started_test: "appends_only (run_started_test E t)"
  unfolding run_started_test_def driver_close_def click_def
  apply (intro appends_only_and_then appends_only_find_element_by_id appends_only_assign
        appends_only_first_by_xpath appends_only_log appends_only_utc_now appends_only_handle
        appends_only_record appends_only_populate appends_only_check appends_only_build_result)
   apply simp
  using appends_only_fail_with [of E timeout_message] apply (simp add: appends_only_def)
  done

lemma appends_only_perform_test: "appends_only (perform_test E url browser t)"
proof (cases "set_test_browser browser")
  case None
  then have "perform_test E url browser t = raises AttributeError"
    by (auto simp: perform_test_def raises_def)
  then show ?thesis by (simp add: appends_only_raises)
next
  case (Some d)
  then have eq: "perform_test E url browser t =
     (\<lambda>w. case driver_get E url w of
        (Inl e, w') \<Rightarrow> (if is_WebDriverException e then
                 (if msg e = target_url_message then fail_with E (msg e)
                  else run_started_test E t)
               else raises e) w'
      | (Inr u, w') \<Rightarrow> run_started_test E t w')"
    by (auto simp: perform_test_def raises_def fun_eq_iff split: prod.splits sum.splits)
  show ?thesis
    unfolding eq
    by (intro appends_only_handle appends_only_driver_get)
       (simp_all add: appends_only_fail_with appends_only_run_started_test appends_only_raises)
qed

lemma appends_only_load_url:
  "prefix errs (snd (load_url mk_error E url errs))"
  by (simp add: load_url_def split: option.splits)

text \<open>
  Claim C9. Whatever the world and the environment, and whether they return or raise,
  \<open>test_indiv_metric_is_valid\<close>, \<open>check_result_metrics\<close> and \<open>perform_test\<close> (with its
  handling of a load error and of a timeout) leave a list of errors of which the list
  they found is a prefix: entries are appended, none is removed or replaced. The same
  holds of the list that \<open>load_url\<close> is given.
\<close>

theorem errors_append_only:
  "prefix (rv_errors (result_values w))
          (rv_errors (result_values (snd (test_indiv_metric_is_valid E metric w)))) \<and>
   prefix (rv_errors (result_values w))
          (rv_errors (result_values (snd (check_result_metrics E w)))) \<and>
   prefix (rv_errors (result_values w))
          (rv_errors (result_values (snd (perform_test E url browser t w)))) \<and>
   prefix errs (snd (load_url mk_error E url errs))"
  using appends_only_test_indiv [of E metric] appends_only_check [of E]
    appends_only_perform_test [of E url browser t] appends_only_load_url [of errs mk_error E url]
  by (simp add: appends_only_def errors_of_def)

subsection \<open>The browser is closed before a result is returned\<close>

lemma and_then_InrE:
  assumes "and_then m f w = (Inr b, w')"
  obtains a w1 where "m w = (Inr a, w1)" and "f a w1 = (Inr b, w')"
proof (cases "m w")
  case (Pair x w1)
  with assms that show thesis
    by (cases x) (simp_all add: and_then_def)
qed

lemma fail_with_closes:
  "\<exists>r w'. fail_with E m w = (Inr r, w') \<and> trace w' = trace w @ [Close] \<and>
     r = NdtResult_of (result_values w')"
  by (simp add: fail_with_def prog_defs)

lemma test_indiv_trace:
  "trace (snd (test_indiv_metric_is_valid E metric w)) = trace w"
  by (simp add: test_indiv_metric_is_valid_def prog_defs split: option.splits pyval.splits)

lemma check_result_metrics_trace:
  "trace (snd (check_result_metrics E w)) = trace w"
proof -
  have step: "trace (snd (and_then (test_indiv_metric_is_valid E metric) f w)) = trace w"
    if "\<And>a w'. trace (snd (f a w')) = trace w'" for f :: "unit \<Rightarrow> unit prog" and metric w
  proof (cases "test_indiv_metric_is_valid E metric w")
    case (Pair r w')
    with test_indiv_trace [of E metric w] have "trace w' = trace w" by simp
    with Pair that show ?thesis by (cases r) (simp_all add: and_then_def)
  qed
  show ?thesis
    unfolding check_result_metrics_def
    by (intro step) (simp add: test_indiv_trace)
qed

lemma validated_result_closes:
  assumes "and_then (check_result_metrics E) (\<lambda>_. and_then driver_close (\<lambda>_. build_result)) w
             = (Inr r, w')"
  shows "\<exists>tr. trace w' = trace w @ [Close]"
proof (cases "check_result_metrics E w")
  case (Pair x w1)
  with check_result_metrics_trace [of E w] have "trace w1 = trace w" by simp
  with Pair assms show ?thesis
    by (cases x) (auto simp: prog_defs)
qed

lemma run_started_test_closes:
  assumes "run_started_test E t w = (Inr r, w')"
  shows "\<exists>tr. trace w' = tr @ [Close]"
proof -
  let ?body = "and_then (record_test_in_progress_values E t) (\<lambda>_. populate_metric_values E)"
  let ?tail = "and_then (check_result_metrics E) (\<lambda>_. and_then driver_close (\<lambda>_. build_result))"
  have "\<exists>w1. (case ?body w1 of
            (Inl e, w2) \<Rightarrow> if is_TimeoutException e then fail_with E timeout_message w2 else (Inl e, w2)
          | (Inr u, w2) \<Rightarrow> ?tail w2) = (Inr r, w')"
    using assms unfolding run_started_test_def
    by (elim and_then_InrE) blast
  then obtain w1 where w1: "(case ?body w1 of
            (Inl e, w2) \<Rightarrow> if is_TimeoutException e then fail_with E timeout_message w2 else (Inl e, w2)
          | (Inr u, w2) \<Rightarrow> ?tail w2) = (Inr r, w')" ..
  show ?thesis
  proof (cases "?body w1")
    case (Pair x w2)
    show ?thesis
    proof (cases x)
      case (Inl e)
      with Pair w1 have "fail_with E timeout_message w2 = (Inr r, w')"
        by (auto split: if_splits)
      with fail_with_closes [of E timeout_message w2] show ?thesis by auto
    next
      case (Inr u)
      with Pair w1 have "?tail w2 = (Inr r, w')" by simp
      from validated_result_closes [OF this] show ?thesis by auto
    qed
  qed
qed

lemma returned_result_closes_browser:
  assumes "perform_test E url browser t w = (Inr r, w')"
  shows "\<exists>tr. trace w' = tr @ [Close]"
proof (cases "set_test_browser browser")
  case None
  with assms show ?thesis by (simp add: perform_test_def)
next
  case (Some d)
  show ?thesis
  proof (cases "driver_get E url w")
    case (Pair x w1)
    show ?thesis
    proof (cases x)
      case (Inr u)
      with Some Pair assms have "run_started_test E t w1 = (Inr r, w')"
        by (simp add: perform_test_def)
      then show ?thesis by (rule run_started_test_closes)
    next
      case (Inl e)
      show ?thesis
      proof (cases "is_WebDriverException e \<and> msg e = target_url_message")
        case True
        with Some Pair Inl assms have "fail_with E (msg e) w1 = (Inr r, w')"
          by (simp add: perform_test_def)
        with fail_with_closes [of E "msg e" w1] show ?thesis by auto
      next
        case False
        with Some Pair Inl assms have "run_started_test E t w1 = (Inr r, w')"
          by (auto simp: perform_test_def split: if_splits)
        then show ?thesis by (rule run_started_test_closes)
      qed
    qed
  qed
qed

text \<open>
  Claim C7. A URL that is malformed, but is not the literal \<open>invalid_url\<close>: Firefox refuses
  it with a message that names the URL, so the handler of \<open>perform_test\<close> does not return;
  \<open>perform_test\<close> goes on, finds no button on the page that never loaded, and raises.
  The browser has been asked for the URL and has never been closed. (Every run that
  returns a result has closed the browser last: \<open>returned_result_closes_browser\<close>.)
\<close>

theorem browser_left_open:
  "fst (perform_test nothing_loads ''not_a_url'' ''firefox'' 20 new_driver)
     = Inl (NoSuchElementException []) \<and>
   trace (snd (perform_test nothing_loads ''not_a_url'' ''firefox'' 20 new_driver))
     = [Get ''not_a_url''] \<and>
   Close \<notin> set (trace (snd (perform_test nothing_loads ''not_a_url'' ''firefox'' 20 new_driver)))"
  by (simp add: run_defs prog_defs page_defs)

subsection \<open>A URL that does not load\<close>

text \<open>\<open>load_url\<close> records every \<open>WebDriverException\<close> of \<open>driver.get\<close> and returns \<open>False\<close>.\<close>

lemma load_url_records_failure:
  assumes "page_get E url = Some e" and "is_WebDriverException e"
  shows "load_url mk_error E url errs = (Inr False, errs @ [mk_error (failed_to_load_url url)])"
  using assms by (simp add: load_url_def)

lemma load_url_loads:
  assumes "page_get E url = None"
  shows "load_url mk_error E url errs = (Inr True, errs)"
  using assms by (simp add: load_url_def)

text \<open>\<open>perform_test\<close> records the failure and returns early for one message only.\<close>

lemma invalid_url_is_recorded:
  assumes "page_get E url = Some e" and "is_WebDriverException e"
    and "msg e = target_url_message"
  shows "perform_test E url ''firefox'' t new_driver =
           (Inr ((NdtResult_of init_values)
                   \<lparr>errors := [\<lparr>timestamp = now E 0, message = target_url_message\<rparr>]\<rparr>),
            \<lparr>result_values = init_values
                 \<lparr>rv_errors := [\<lparr>timestamp = now E 0, message = target_url_message\<rparr>]\<rparr>,
              ticks = 1, trace = [Get url, Close]\<rparr>)"
  using assms by (simp add: run_defs prog_defs)

text \<open>
  Claim C4. Two failures to load that \<open>perform_test\<close> does not record. For the malformed
  URL \<open>not_a_url\<close> the browser raises a \<open>WebDriverException\<close> whose message is not the one
  the handler compares with: \<open>perform_test\<close> goes on and raises
  \<open>NoSuchElementException\<close> to its caller, with no error recorded. For a page on which
  \<open>driver.get\<close> times out while its elements are there, \<open>perform_test\<close> goes on and
  returns a complete result with an empty list of errors.
\<close>

theorem load_failure_is_not_recorded:
  "page_get nothing_loads ''not_a_url''
     = Some (WebDriverException ''Target URL not_a_url is not well-formed.'') \<and>
   perform_test nothing_loads ''not_a_url'' ''firefox'' 20 new_driver
     = (Inl (NoSuchElementException []), new_driver\<lparr>trace := [Get ''not_a_url'']\<rparr>) \<and>
   rv_errors (result_values
      (snd (perform_test nothing_loads ''not_a_url'' ''firefox'' 20 new_driver))) = [] \<and>
   page_get slow_page ''http://ndt.example:7123/''
     = Some (TimeoutException ''Timed out waiting for page load.'') \<and>
   fst (perform_test slow_page ''http://ndt.example:7123/'' ''firefox'' 20 new_driver)
     = Inr \<lparr>start_time = Some 100, end_time = Some 103, c2s_start_time = Some 101,
            s2c_start_time = Some 102, errors = [], latency = PyStr ''23'',
            c2s_throughput = PyStr ''941'', s2c_throughput = PyStr ''872''\<rparr>"
  by (simp add: run_defs prog_defs page_defs)

subsection \<open>Browser selection\<close>

text \<open>\<open>create_browser\<close> gives each of the four identifiers its class and refuses every
  other identifier.\<close>

lemma create_browser_supported:
  "create_browser ''firefox'' = Inr Firefox \<and> create_browser ''chrome'' = Inr Chrome \<and>
   create_browser ''edge'' = Inr Edge \<and> create_browser ''safari'' = Inr Safari"
  by (simp add: create_browser_def FIREFOX_def CHROME_def EDGE_def SAFARI_def)

lemma create_browser_unsupported:
  assumes "browser \<notin> {''firefox'', ''chrome'', ''edge'', ''safari''}"
  shows "create_browser browser = Inl (Invalid_browser browser)"
  using assms by (simp add: create_browser_def FIREFOX_def CHROME_def EDGE_def SAFARI_def)

text \<open>
  Claim C5. \<open>set_test_browser\<close>, which \<open>perform_test\<close> calls, knows \<open>firefox\<close> only: for
  \<open>chrome\<close>, \<open>edge\<close> and \<open>safari\<close> it returns \<open>None\<close> and not an instance of their class
  (\<open>create_browser\<close> does return one), and for an unsupported identifier it returns
  \<open>None\<close> too and raises nothing (\<open>create_browser\<close> raises). \<open>perform_test\<close> then fails
  with \<open>AttributeError\<close> at its first use of the driver.
\<close>

theorem set_test_browser_knows_firefox_only:
  "set_test_browser ''firefox'' = Some Firefox \<and>
   set_test_browser ''chrome'' = None \<and> create_browser ''chrome'' = Inr Chrome \<and>
   set_test_browser ''edge'' = None \<and> create_browser ''edge'' = Inr Edge \<and>
   set_test_browser ''safari'' = None \<and> create_browser ''safari'' = Inr Safari \<and>
   set_test_browser ''netscape'' = None \<and>
   create_browser ''netscape'' = Inl (Invalid_browser ''netscape'') \<and>
   perform_test good_page ''http://ndt.example:7123/'' ''chrome'' 20 new_driver
     = (Inl AttributeError, new_driver)"
  by (simp add: set_test_browser_def perform_test_def create_browser_def
        FIREFOX_def CHROME_def EDGE_def SAFARI_def)

subsection \<open>Starting the replay server\<close>

text \<open>
  Claim C8. When the bind fails, \<open>async_start\<close> gives the failure to its caller and leaves
  the server as it was: the port of a new server is still not set. When the bind
  succeeds, \<open>async_start\<close> returns and the port is the port of the bound socket.
\<close>

theorem async_start_bind:
  "async_start (Inl e) s = (Inl e, s) \<and>
   port (new_server path) = None \<and>
   port (snd (async_start (Inl e) (new_server path))) = None \<and>
   fst (async_start (Inr (host, p)) s) = Inr () \<and>
   port (snd (async_start (Inr (host, p)) s)) = Some p"
  by (simp add: async_start_def new_server_def)

subsection \<open>A metric that is not a text\<close>

text \<open>
  Claim C10, as stated, at a new driver: no metric has been read from the page, and
  validating \<open>latency\<close> raises \<open>KeyError\<close> from the lookup in the dictionary, not
  \<open>TypeError\<close> from \<open>float\<close>.
\<close>

theorem unset_metric_counterexample:
  "dict_get (result_values new_driver) ''latency'' = None \<and>
   fst (test_indiv_metric_is_valid good_page ''latency'' new_driver) = Inl (KeyError ''latency'') \<and>
   fst (test_indiv_metric_is_valid good_page ''latency'' new_driver) \<noteq> Inl TypeError"
  by (simp add: run_defs prog_defs)

text \<open>
  Claim C10, amended. \<open>test_indiv_metric_is_valid\<close> returns for every metric whose key
  holds a text. When the key holds \<open>None\<close>, \<open>float\<close> raises \<open>TypeError\<close>; when the
  dictionary has no such key (the metric was never read from the page), the lookup
  raises \<open>KeyError\<close>. Neither is caught, and in both cases nothing is appended to the
  errors: the world is as it was.
\<close>

theorem metric_validation_outcomes:
  "(dict_get (result_values w) metric = Some (PyStr s) \<longrightarrow>
      (\<exists>w'. test_indiv_metric_is_valid E metric w = (Inr (), w'))) \<and>
   (dict_get (result_values w) metric = Some PyNone \<longrightarrow>
      test_indiv_metric_is_valid E metric w = (Inl TypeError, w)) \<and>
   (dict_get (result_values w) metric = None \<longrightarrow>
      test_indiv_metric_is_valid E metric w = (Inl (KeyError metric), w))"
  by (simp add: test_indiv_metric_is_valid_def prog_defs)

theorem metric_validation_outcomes_witness:
  "dict_get (init_values\<lparr>rv_latency := Some (PyStr ''n/a'')\<rparr>) ''latency'' = Some (PyStr ''n/a'') \<and>
   (\<exists>w'. test_indiv_metric_is_valid good_page ''latency''
           (new_driver\<lparr>result_values := init_values\<lparr>rv_latency := Some (PyStr ''n/a'')\<rparr>\<rparr>)
         = (Inr (), w')) \<and>
   dict_get (init_values\<lparr>rv_latency := Some PyNone\<rparr>) ''latency'' = Some PyNone \<and>
   fst (test_indiv_metric_is_valid good_page ''latency''
          (new_driver\<lparr>result_values := init_values\<lparr>rv_latency := Some PyNone\<rparr>\<rparr>))
     = Inl TypeError \<and>
   dict_get init_values ''latency'' = None \<and>
   fst (test_indiv_metric_is_valid good_page ''latency'' new_driver) = Inl (KeyError ''latency'')"
proof -
  let ?held = "new_driver\<lparr>result_values := init_values\<lparr>rv_latency := Some (PyStr ''n/a'')\<rparr>\<rparr>"
  let ?none = "new_driver\<lparr>result_values := init_values\<lparr>rv_latency := Some PyNone\<rparr>\<rparr>"
  have held: "dict_get (result_values ?held) ''latency'' = Some (PyStr ''n/a'')"
    and none: "dict_get (result_values ?none) ''latency'' = Some PyNone"
    and absent: "dict_get (result_values new_driver) ''latency'' = None"
    by (simp_all add: dict_get_def new_driver_def init_values_def)
  from metric_validation_outcomes [of ?held "''latency''" "''n/a''" good_page] held
  have a: "\<exists>w'. test_indiv_metric_is_valid good_page ''latency'' ?held = (Inr (), w')"
    by blast
  from metric_validation_outcomes [of ?none "''latency''" "''n/a''" good_page] none
  have b: "fst (test_indiv_metric_is_valid good_page ''latency'' ?none) = Inl TypeError"
    by simp
  from metric_validation_outcomes [of new_driver "''latency''" "''n/a''" good_page] absent
  have c: "fst (test_indiv_metric_is_valid good_page ''latency'' new_driver)
             = Inl (KeyError ''latency'')"
    by simp
  from held none absent have
    "dict_get (init_values\<lparr>rv_latency := Some (PyStr ''n/a'')\<rparr>) ''latency'' = Some (PyStr ''n/a'')"
    "dict_get (init_values\<lparr>rv_latency := Some PyNone\<rparr>) ''latency'' = Some PyNone"
    "dict_get init_values ''latency'' = None"
    by (simp_all add: new_driver_def)
  with a b c show ?thesis by blast
qed

end
